theory Spec2Isabelle
  imports Main
begin

section \<open>The async fragment tag: \<^verbatim>\<open>src/taglibs/async/async-fragment-tag.js\<close>\<close>

text \<open>
  The module exports one function, \<^verbatim>\<open>render(input, out)\<close>, with two helpers,
  \<^verbatim>\<open>requestData\<close> and \<^verbatim>\<open>promiseToCallback\<close>, and one inner function,
  \<^verbatim>\<open>renderBody\<close>, that closes over the variables of the call. The embedding keeps the
  variables of one call in a record, threads that record through the functions, and
  records every call the code makes on its collaborators (the output stream, the
  renderers of the input, the timer, the promise, the loggers) as an entry of a trace, in
  the order the code makes them.

  JavaScript runs the synchronous part of \<^verbatim>\<open>render\<close> to its end before any timer or
  promise handler runs. What happens later is a list of events, each handled by the code's
  own handler: the timer's function, the callback that was handed to the provider, the
  handlers registered on the promise.

  The collaborators are outside the module. Their calls are taken to return (a renderer
  or the output stream that throws is not modelled); the provider is the one collaborator
  whose throwing is modelled, since nothing in the module catches it. The provider calls
  the callback with an error and a datum, never with a third argument.
\<close>

subsection \<open>Values\<close>

text \<open>
  The values a data provider, an error or a datum can be. A thenable is any object with a
  function-valued \<^verbatim>\<open>then\<close>; it carries what the code inspects (whether it has a
  \<^verbatim>\<open>catch\<close>, a \<^verbatim>\<open>fail\<close>, a \<^verbatim>\<open>done\<close>) and, for a thenable that calls its handlers
  inside \<^verbatim>\<open>then\<close>/\<^verbatim>\<open>catch\<close> (an already settled deferred of an old library), the
  outcome it has settled with; a thenable that settles later does so through an event.
  A function carries its declared arity (\<^verbatim>\<open>provider.length\<close>) and what one call of it
  does before it returns: the calls it makes on the callback it was given, and whether it
  returns a value or throws. Numbers are integers. \<open>ErrorObj m\<close> is an \<^verbatim>\<open>Error\<close> with
  the message \<open>m\<close>; \<open>ErrorUnprinted\<close> is an \<^verbatim>\<open>Error\<close> whose message holds the text of
  a number that is not printed here (see \<open>numStr\<close>).
\<close>

datatype outcome = Fulfilled jsval | Rejected jsval
and jsval =
    Undefined
  | Null
  | Boolean bool
  | Num int
  | Str string
  | Object nat
  | ErrorObj string
  | ErrorUnprinted
  | Thenable bool bool bool "outcome option"
  | Function nat "(jsval \<times> jsval) list" completion
and completion = Returns jsval | Throws jsval

text \<open>JavaScript's truthiness, as \<^verbatim>\<open>if (err)\<close> and \<^verbatim>\<open>a || b\<close> test it.\<close>

fun truthy :: "jsval \<Rightarrow> bool" where
  "truthy Undefined = False"
| "truthy Null = False"
| "truthy (Boolean b) = b"
| "truthy (Num n) = (n \<noteq> 0)"
| "truthy (Str s) = (s \<noteq> [])"
| "truthy (Object i) = True"
| "truthy (ErrorObj m) = True"
| "truthy ErrorUnprinted = True"
| "truthy (Thenable c f d st) = True"
| "truthy (Function n cs r) = True"

text \<open>An optional string property (\<^verbatim>\<open>input.name\<close>): absent or empty is falsy.\<close>

fun truthyStr :: "string option \<Rightarrow> bool" where
  "truthyStr None = False"
| "truthyStr (Some s) = (s \<noteq> [])"

text \<open>String concatenation with a value that may be \<^verbatim>\<open>undefined\<close>.\<close>

fun strOf :: "string option \<Rightarrow> string" where
  "strOf None = ''undefined''"
| "strOf (Some s) = s"

text \<open>The decimal digits of a number, as \<^verbatim>\<open>'' + n\<close> gives them.\<close>

fun digits :: "nat \<Rightarrow> string" where
  "digits n =
     (if n < 10 then [''0123456789'' ! n]
      else digits (n div 10) @ [''0123456789'' ! (n mod 10)])"

declare digits.simps [simp del]

text \<open>
  The text of an integer-valued number, as \<^verbatim>\<open>'' + n\<close> gives it. Below \<open>10 ^ 21\<close> in
  absolute value that is the sign and the decimal digits. From \<open>10 ^ 21\<close> on JavaScript
  prints the exponent notation of the floating-point value (\<^verbatim>\<open>1e+21\<close>), which is not
  computed here: the result is \<open>None\<close>.
\<close>

definition numStr :: "int \<Rightarrow> string option" where
  "numStr i =
     (if \<bar>i\<bar> < 10 ^ 21
      then Some (if i < 0 then ''-'' @ digits (nat (- i)) else digits (nat i))
      else None)"

text \<open>
  \<^verbatim>\<open>function isPromise(o) { return o && typeof o.then === 'function'; }\<close>
\<close>

fun isPromise :: "jsval \<Rightarrow> bool" where
  "isPromise (Thenable c f d st) = True"
| "isPromise v = False"

subsection \<open>The input, the output stream and the trace\<close>

text \<open>
  The properties of \<^verbatim>\<open>input\<close> the function reads. The four renderers are functions of
  the caller; the model keeps whether each is supplied and records each call of one.
  \<open>input_uname\<close> is \<^verbatim>\<open>input._name\<close>; \<open>input_timeout\<close> is \<open>None\<close> when
  \<^verbatim>\<open>input.timeout\<close> is \<^verbatim>\<open>null\<close> or \<^verbatim>\<open>undefined\<close>.

  Not modelled: \<^verbatim>\<open>input.method\<close> (lines 139 to 142 replace the provider by that method
  of it, bound to it, which keeps the arity), so that \<open>input_dataProvider\<close> stands for
  the provider line 144 passes to \<^verbatim>\<open>requestData\<close>; and \<^verbatim>\<open>input.scope\<close> (the
  \<^verbatim>\<open>this\<close> of the provider). Of \<^verbatim>\<open>input.arg\<close> the model keeps whether the caller
  supplies it (\<open>input_arg\<close>): lines 67 and 68 take it, or a new object when it is
  absent, assign the output stream to its \<^verbatim>\<open>out\<close> and pass it to the provider.
\<close>

record input =
  input_dataProvider :: jsval
  input_arg :: bool
  input_clientReorder :: jsval
  input_name :: "string option"
  input_uname :: "string option"
  input_timeout :: "int option"
  input_renderBody :: bool
  input_renderError :: bool
  input_renderTimeout :: bool
  input_renderPlaceholder :: bool
  input_showAfter :: "string option"

text \<open>
  The writers: the output stream \<^verbatim>\<open>out\<close>, the nested stream \<^verbatim>\<open>out.beginAsync\<close>
  returns, and the buffered writer \<^verbatim>\<open>asyncWriter.create\<close> returns in client-reorder
  mode.
\<close>

datatype writer = MainOut | BeginAsyncOut | ReorderOut

text \<open>
  The arguments of a call of the provider, and the calls the module makes, one
  constructor each: the assignment \<^verbatim>\<open>arg.out = out\<close> (with whether \<^verbatim>\<open>arg\<close> is the
  caller's \<^verbatim>\<open>input.arg\<close>), \<^verbatim>\<open>out.emit(name, fragmentInfo)\<close>, \<^verbatim>\<open>out.write(text)\<close>,
  \<^verbatim>\<open>out.flush()\<close>, \<^verbatim>\<open>out.beginAsync({timeout, name})\<close>,
  \<^verbatim>\<open>asyncWriter.create\<close>, \<^verbatim>\<open>asyncOut.end()\<close>, \<^verbatim>\<open>targetOut.error(err)\<close>,
  \<^verbatim>\<open>input.renderBody(targetOut, data)\<close>, \<^verbatim>\<open>input.renderError(targetOut)\<close>,
  \<^verbatim>\<open>renderTimeout(targetOut)\<close>, \<^verbatim>\<open>renderPlaceholder(out)\<close>,
  \<^verbatim>\<open>console.error(text, err)\<close>, \<^verbatim>\<open>logger.error(message)\<close> (with the message
  of \<open>timeoutMessage\<close>),
  \<^verbatim>\<open>setTimeout(f, ms)\<close>, \<^verbatim>\<open>clearTimeout(timeoutId)\<close>, the call of the provider
  function, and the \<^verbatim>\<open>then\<close>, \<^verbatim>\<open>catch\<close>, \<^verbatim>\<open>fail\<close> and \<^verbatim>\<open>done\<close> of the
  promise.
\<close>

datatype parg = ArgsObject | CallbackFn

datatype effect =
    AssignArgOut bool
  | Emit string
  | Write string
  | Flush
  | BeginAsync int "string option"
  | CreateWriter
  | WriterEnd writer
  | WriterError writer jsval
  | RenderBodyCall writer jsval
  | RenderErrorCall writer
  | RenderTimeoutCall writer
  | RenderPlaceholderCall
  | ConsoleError string jsval
  | LoggerError "string option"
  | SetTimeout int
  | ClearTimeout
  | ProviderCall "parg list"
  | PromiseThen
  | PromiseCatch
  | PromiseFail
  | PromiseDone

datatype fragId = NameId string | CounterId nat

fun idStr :: "fragId \<Rightarrow> string" where
  "idStr (NameId s) = s"
| "idStr (CounterId n) = digits n"

text \<open>The object \<^verbatim>\<open>fragmentInfo\<close> and the shared \<^verbatim>\<open>out.global.__asyncFragments\<close>.\<close>

record fragment_info =
  fi_name :: "string option"
  fi_clientReorder :: bool
  fi_out :: "writer option"
  fi_id :: "fragId option"
  fi_asyncValue :: bool
  fi_after :: "string option"

record async_fragments =
  fragments :: "fragment_info list option"
  nextId :: nat

text \<open>
  The variables of one call of \<^verbatim>\<open>render\<close> (\<^verbatim>\<open>done\<close>, \<^verbatim>\<open>timeoutId\<close>,
  \<^verbatim>\<open>asyncOut\<close>, \<^verbatim>\<open>beginEmitted\<close>, \<^verbatim>\<open>beforeRenderEmitted\<close>, \<^verbatim>\<open>fragmentInfo\<close>),
  followed by the world around the call: \<^verbatim>\<open>out.global.__asyncFragments\<close>, the trace,
  whether the runtime still holds the armed timer, whether the provider function holds the
  callback, and whether a promise is pending (with whether a rejection handler is
  registered on it). \<open>bodyRuns\<close> is a ghost counter of the runs of \<^verbatim>\<open>renderBody\<close>.
  \<open>timeoutId\<close> is \<open>True\<close> when the variable holds a timer handle and \<open>False\<close> when
  it is \<^verbatim>\<open>null\<close>.
\<close>

record render_state =
  done_flag :: bool
  timeoutId :: bool
  asyncOut :: "writer option"
  beginEmitted :: bool
  beforeRenderEmitted :: bool
  fragmentInfo :: fragment_info
  global :: "async_fragments option"
  trace :: "effect list"
  timerPending :: bool
  callbackHeld :: bool
  promisePending :: "bool option"
  bodyRuns :: nat

type_synonym callback = "jsval \<Rightarrow> jsval \<Rightarrow> render_state \<Rightarrow> render_state"

definition perform :: "effect \<Rightarrow> render_state \<Rightarrow> render_state" where
  "perform e s = s\<lparr>trace := trace s @ [e]\<rparr>"

subsection \<open>\<^verbatim>\<open>promiseToCallback\<close> and \<^verbatim>\<open>requestData\<close>\<close>

text \<open>
  \<^verbatim>\<open>promiseToCallback(promise, callback)\<close>, lines 12 to 35. With a callback it registers
  \<^verbatim>\<open>then\<close>, then \<^verbatim>\<open>catch\<close> if the promise has one, else \<^verbatim>\<open>fail\<close> if it has one,
  and calls \<^verbatim>\<open>done\<close> if there is one. The promise returned by \<^verbatim>\<open>then\<close> is taken to
  have the methods of the provider's promise. A thenable that has already settled and
  calls handlers at once runs the handler inside the registration; otherwise the promise
  stays pending, with the rejection handler registered or not.
\<close>

fun promiseToCallback :: "jsval \<Rightarrow> callback option \<Rightarrow> render_state \<Rightarrow> render_state" where
  "promiseToCallback (Thenable c f d st) (Some cb) s =
     (let s1 = perform PromiseThen s;
          s2 = (case st of Some (Fulfilled v) \<Rightarrow> cb Null v s1 | _ \<Rightarrow> s1);
          s3 = (if c then perform PromiseCatch s2
                else if f then perform PromiseFail s2 else s2);
          s4 = (case st of
                  Some (Rejected e) \<Rightarrow> if c \<or> f then cb e Undefined s3 else s3
                | _ \<Rightarrow> s3);
          s5 = (if d then perform PromiseDone s4 else s4)
      in s5\<lparr>promisePending := (case st of None \<Rightarrow> Some (c \<or> f) | Some x \<Rightarrow> None)\<rparr>)"
| "promiseToCallback p cbo s = s"

text \<open>The calls a provider function makes on the callback before it returns.\<close>

fun deliver :: "callback \<Rightarrow> (jsval \<times> jsval) list \<Rightarrow> render_state \<Rightarrow> render_state" where
  "deliver cb [] s = s"
| "deliver cb ((e, d) # cs) s = deliver cb cs (cb e d s)"

text \<open>
  \<^verbatim>\<open>requestData(provider, args, callback, thisObj)\<close>, lines 37 to 63. The result is
  \<open>Inl (e, s)\<close> when the provider function throws \<open>e\<close> (nothing in the module catches
  it), with the state at the throw.
\<close>

fun requestData :: "jsval \<Rightarrow> callback \<Rightarrow> render_state \<Rightarrow> (jsval \<times> render_state) + render_state" where
  "requestData (Thenable c f d st) cb s =
     Inr (promiseToCallback (Thenable c f d st) (Some cb) s)"
| "requestData (Function n calls r) cb s =
     (let s1 = deliver cb calls
                 ((perform (ProviderCall (if n = 1 then [CallbackFn] else [ArgsObject, CallbackFn])) s)
                    \<lparr>callbackHeld := True\<rparr>)
      in case r of
           Throws e \<Rightarrow> Inl (e, s1)
         | Returns data \<Rightarrow>
             if data \<noteq> Undefined then
               (if isPromise data then Inr (promiseToCallback data (Some cb) s1)
                else Inr (cb Null data s1))
             else Inr s1)"
| "requestData provider cb s = Inr (cb Null provider s)"

subsection \<open>\<^verbatim>\<open>renderBody\<close>\<close>

definition clientReorderOf :: "bool \<Rightarrow> input \<Rightarrow> bool" where
  "clientReorderOf isClientReorderSupported input =
     (isClientReorderSupported \<and> input_clientReorder input = Boolean True)"

definition nameOf :: "input \<Rightarrow> string option" where
  "nameOf input = (if truthyStr (input_name input) then input_name input else input_uname input)"

definition targetOut :: "render_state \<Rightarrow> writer" where
  "targetOut s = (case asyncOut s of Some w \<Rightarrow> w | None \<Rightarrow> MainOut)"

text \<open>Lines 86 to 89.\<close>

definition clearTimer :: "render_state \<Rightarrow> render_state" where
  "clearTimer s =
     (if timeoutId s then perform ClearTimeout (s\<lparr>timerPending := False, timeoutId := False\<rparr>)
      else s)"

text \<open>Lines 95 to 102, and lines 234 to 239 of \<^verbatim>\<open>render\<close>.\<close>

definition emitBegin :: "render_state \<Rightarrow> render_state" where
  "emitBegin s =
     (if \<not> beginEmitted s then perform (Emit ''asyncFragmentBegin'') (s\<lparr>beginEmitted := True\<rparr>)
      else s)"

text \<open>Lines 104 to 107.\<close>

definition emitBeforeRender :: "render_state \<Rightarrow> render_state" where
  "emitBeforeRender s =
     (if \<not> beforeRenderEmitted s
      then perform (Emit ''asyncFragmentBeforeRender'') (s\<lparr>beforeRenderEmitted := True\<rparr>)
      else s)"

text \<open>Lines 109 to 122.\<close>

definition renderContent :: "input \<Rightarrow> jsval \<Rightarrow> jsval \<Rightarrow> bool \<Rightarrow> render_state \<Rightarrow> render_state" where
  "renderContent input err data renderTimeout s =
     (if truthy err then
        (if input_renderError input then
           perform (RenderErrorCall (targetOut s))
             (perform (ConsoleError (''Async fragment ('' @ strOf (nameOf input) @ '') failed. Error:'') err) s)
         else perform (WriterError (targetOut s) err) s)
      else if renderTimeout then perform (RenderTimeoutCall (targetOut s)) s
      else if input_renderBody input then perform (RenderBodyCall (targetOut s) data) s
      else s)"

text \<open>Lines 124 to 136.\<close>

definition finishFragment :: "bool \<Rightarrow> render_state \<Rightarrow> render_state" where
  "finishFragment clientReorder s =
     (let s1 = (if \<not> clientReorder then perform (Emit ''asyncFragmentFinish'') s else s)
      in case asyncOut s1 of
           None \<Rightarrow> s1
         | Some w \<Rightarrow>
             (let s2 = perform (WriterEnd w) s1
              in if \<not> clientReorder then perform Flush s2 else s2))"

text \<open>
  \<^verbatim>\<open>function renderBody(err, data, renderTimeout)\<close>, lines 85 to 137. The third
  parameter is \<open>True\<close> when the timeout renderer is passed.
\<close>

definition renderBody :: "bool \<Rightarrow> input \<Rightarrow> jsval \<Rightarrow> jsval \<Rightarrow> bool \<Rightarrow> render_state \<Rightarrow> render_state" where
  "renderBody isClientReorderSupported input err data renderTimeout s =
     (let s1 = clearTimer s;
          s2 = s1\<lparr>done_flag := True, bodyRuns := Suc (bodyRuns s1),
                  fragmentInfo := (fragmentInfo s1)\<lparr>fi_out := Some (targetOut s1)\<rparr>\<rparr>;
          s3 = emitBegin s2;
          s4 = emitBeforeRender s3;
          s5 = renderContent input err data renderTimeout s4
      in finishFragment (clientReorderOf isClientReorderSupported input) s5)"

subsection \<open>\<^verbatim>\<open>render\<close>\<close>

text \<open>Lines 147 to 155: the local \<^verbatim>\<open>timeout\<close> after its defaults.\<close>

definition effectiveTimeout :: "input \<Rightarrow> int option" where
  "effectiveTimeout input =
     (case input_timeout input of
        None \<Rightarrow> Some 10000
      | Some t \<Rightarrow> if t \<le> 0 then None else Some t)"

text \<open>Lines 157 to 168: the timer is armed when the timeout is not \<^verbatim>\<open>null\<close>.\<close>

definition armTimeout :: "input \<Rightarrow> render_state \<Rightarrow> render_state" where
  "armTimeout input s =
     (case effectiveTimeout input of
        None \<Rightarrow> s
      | Some t \<Rightarrow> perform (SetTimeout t) (s\<lparr>timeoutId := True, timerPending := True\<rparr>))"

text \<open>
  Line 159: the message of the timeout, \<open>None\<close> when the text of the timeout is not
  printed. Line 165: the \<^verbatim>\<open>Error\<close> made of it.
\<close>

definition timeoutMessage :: "input \<Rightarrow> string option" where
  "timeoutMessage input =
     (case (case effectiveTimeout input of None \<Rightarrow> Some ''null'' | Some t \<Rightarrow> numStr t) of
        Some n \<Rightarrow>
          Some (''Async fragment ('' @ strOf (nameOf input) @ '') timed out after '' @ n @ ''ms'')
      | None \<Rightarrow> None)"

definition timeoutError :: "input \<Rightarrow> jsval" where
  "timeoutError input =
     (case timeoutMessage input of Some m \<Rightarrow> ErrorObj m | None \<Rightarrow> ErrorUnprinted)"

text \<open>Line 176: \<^verbatim>\<open>input.name || (asyncFragmentContext.nextId++)\<close>.\<close>

definition fragmentId :: "input \<Rightarrow> async_fragments \<Rightarrow> fragId \<times> async_fragments" where
  "fragmentId input ctx =
     (case input_name input of
        Some n \<Rightarrow>
          if n \<noteq> [] then (NameId n, ctx)
          else (CounterId (nextId ctx), ctx\<lparr>nextId := Suc (nextId ctx)\<rparr>)
      | None \<Rightarrow> (CounterId (nextId ctx), ctx\<lparr>nextId := Suc (nextId ctx)\<rparr>))"

text \<open>Lines 178 to 184: the placeholder written to \<^verbatim>\<open>out\<close>.\<close>

definition writePlaceholder :: "input \<Rightarrow> fragId \<Rightarrow> render_state \<Rightarrow> render_state" where
  \<open>writePlaceholder input fid s =
     (if input_renderPlaceholder input then
        perform (Write ''</span>'')
          (perform RenderPlaceholderCall
            (perform (Write (''<span id="afph'' @ idStr fid @ ''">'')) s))
      else perform (Write (''<noscript id="afph'' @ idStr fid @ ''"></noscript>'')) s)\<close>

text \<open>
  Lines 170 to 224, the client-reorder branch. The context is the one of
  \<^verbatim>\<open>out.global\<close>, created when absent. The fragment info is pushed on
  \<^verbatim>\<open>fragments\<close> when that list is there (\<open>pushFragment\<close>, lines 222 to 224);
  \<^verbatim>\<open>renderBody\<close> later assigns to its
  \<^verbatim>\<open>out\<close> the writer it already holds, so the pushed value is the final one. The
  handlers registered on the buffered writer (the proxy of its events, the resolution of
  the \<^verbatim>\<open>AsyncValue\<close>) run inside that writer and are not modelled.
\<close>

definition pushFragment :: "fragment_info \<Rightarrow> async_fragments \<Rightarrow> async_fragments" where
  "pushFragment fi ctx =
     (case fragments ctx of
        Some fs \<Rightarrow> ctx\<lparr>fragments := Some (fs @ [fi])\<rparr>
      | None \<Rightarrow> ctx)"

definition clientReorderBranch :: "input \<Rightarrow> render_state \<Rightarrow> render_state" where
  "clientReorderBranch input s =
     (let ctx = (case global s of Some c \<Rightarrow> c | None \<Rightarrow> \<lparr>fragments = Some [], nextId = 0\<rparr>);
          (fid, ctx1) = fragmentId input ctx;
          s1 = writePlaceholder input fid s;
          fi = (fragmentInfo s1)\<lparr>fi_out := Some ReorderOut, fi_id := Some fid,
                 fi_asyncValue := True, fi_after := input_showAfter input\<rparr>;
          s2 = (perform CreateWriter s1)\<lparr>asyncOut := Some ReorderOut, fragmentInfo := fi\<rparr>;
          ctx2 = pushFragment fi ctx1
      in s2\<lparr>global := Some ctx2\<rparr>)"

text \<open>Lines 225 to 231.\<close>

definition beginAsyncBranch :: "input \<Rightarrow> render_state \<Rightarrow> render_state" where
  "beginAsyncBranch input s =
     (let s1 = perform (BeginAsync 0 (nameOf input)) (perform Flush s)
      in s1\<lparr>asyncOut := Some BeginAsyncOut,
             fragmentInfo := (fragmentInfo s1)\<lparr>fi_out := Some BeginAsyncOut\<rparr>\<rparr>)"

text \<open>
  The variables of a call as lines 66 to 83 initialise them; the trace starts with the
  assignment of line 68.
\<close>

definition initialState :: "bool \<Rightarrow> input \<Rightarrow> async_fragments option \<Rightarrow> render_state" where
  "initialState isClientReorderSupported input g =
     \<lparr>done_flag = False, timeoutId = False, asyncOut = None,
      beginEmitted = False, beforeRenderEmitted = False,
      fragmentInfo = \<lparr>fi_name = nameOf input,
                       fi_clientReorder = clientReorderOf isClientReorderSupported input,
                       fi_out = None, fi_id = None, fi_asyncValue = False, fi_after = None\<rparr>,
      global = g, trace = [AssignArgOut (input_arg input)], timerPending = False,
      callbackHeld = False,
      promisePending = None, bodyRuns = 0\<rparr>"

text \<open>
  \<^verbatim>\<open>module.exports = function render(input, out)\<close>, lines 65 to 240.
  \<open>isClientReorderSupported\<close> is the export of \<^verbatim>\<open>./client-reorder\<close>, a parameter
  here; \<open>g\<close> is \<^verbatim>\<open>out.global.__asyncFragments\<close> at the call.
\<close>

definition render :: "bool \<Rightarrow> input \<Rightarrow> async_fragments option \<Rightarrow> (jsval \<times> render_state) + render_state" where
  "render isClientReorderSupported input g =
     (case requestData (input_dataProvider input)
             (\<lambda>err data. renderBody isClientReorderSupported input err data False)
             (initialState isClientReorderSupported input g) of
        Inl x \<Rightarrow> Inl x
      | Inr s1 \<Rightarrow>
          Inr (emitBegin
                (if \<not> done_flag s1 then
                   (if clientReorderOf isClientReorderSupported input
                    then clientReorderBranch input (armTimeout input s1)
                    else beginAsyncBranch input (armTimeout input s1))
                 else s1)))"

subsection \<open>What happens after \<^verbatim>\<open>render\<close> has returned\<close>

text \<open>
  The timer fires (lines 158 to 167, when the runtime still holds it); the provider
  function calls the callback it was given; the pending promise settles and the handlers
  of \<^verbatim>\<open>promiseToCallback\<close> run (a promise settles once; a rejection reaches
  \<^verbatim>\<open>callback(err)\<close> only through a registered \<^verbatim>\<open>catch\<close> or \<^verbatim>\<open>fail\<close> handler).
\<close>

datatype event = TimerFires | ProviderCallback jsval jsval | PromiseSettles outcome

fun step :: "bool \<Rightarrow> input \<Rightarrow> event \<Rightarrow> render_state \<Rightarrow> render_state" where
  "step crs input TimerFires s =
     (if timerPending s then
        (if input_renderTimeout input then
           renderBody crs input Null Null True
             (perform (LoggerError (timeoutMessage input)) (s\<lparr>timerPending := False\<rparr>))
         else renderBody crs input (timeoutError input) Undefined False
                (s\<lparr>timerPending := False\<rparr>))
      else s)"
| "step crs input (ProviderCallback err data) s =
     (if callbackHeld s then renderBody crs input err data False s else s)"
| "step crs input (PromiseSettles oc) s =
     (case promisePending s of
        None \<Rightarrow> s
      | Some handled \<Rightarrow>
          (case oc of
             Fulfilled v \<Rightarrow> renderBody crs input Null v False (s\<lparr>promisePending := None\<rparr>)
           | Rejected e \<Rightarrow>
               if handled then renderBody crs input e Undefined False (s\<lparr>promisePending := None\<rparr>)
               else s\<lparr>promisePending := None\<rparr>))"

fun run :: "bool \<Rightarrow> input \<Rightarrow> event list \<Rightarrow> render_state \<Rightarrow> render_state" where
  "run crs input [] s = s"
| "run crs input (ev # evs) s = run crs input evs (step crs input ev s)"

section \<open>Executions and what is observed of them\<close>

text \<open>The state at the end of a call of \<^verbatim>\<open>render\<close>, whether it returned or threw.\<close>

fun stateOf :: "(jsval \<times> render_state) + render_state \<Rightarrow> render_state" where
  "stateOf (Inl (e, s)) = s"
| "stateOf (Inr s) = s"

text \<open>
  A whole execution: \<^verbatim>\<open>render\<close>, then the events in their order. \<open>None\<close> when
  \<^verbatim>\<open>render\<close> threw.
\<close>

definition renderThen :: "bool \<Rightarrow> input \<Rightarrow> async_fragments option \<Rightarrow> event list \<Rightarrow> render_state option" where
  "renderThen crs input g evs =
     (case render crs input g of Inl x \<Rightarrow> None | Inr s \<Rightarrow> Some (run crs input evs s))"

text \<open>
  The entries of the trace that render content into the target writer (the body, the
  error renderer or the error channel, the timeout renderer); those that deliver an error;
  the timers armed; what is written to \<^verbatim>\<open>out\<close> for the placeholder.
\<close>

fun isContent :: "effect \<Rightarrow> bool" where
  "isContent (RenderBodyCall w d) = True"
| "isContent (RenderErrorCall w) = True"
| "isContent (RenderTimeoutCall w) = True"
| "isContent (WriterError w e) = True"
| "isContent e = False"

fun isErrorSink :: "effect \<Rightarrow> bool" where
  "isErrorSink (RenderErrorCall w) = True"
| "isErrorSink (WriterError w e) = True"
| "isErrorSink e = False"

fun isSetTimeout :: "effect \<Rightarrow> bool" where
  "isSetTimeout (SetTimeout t) = True"
| "isSetTimeout e = False"

fun isPlaceholderOutput :: "effect \<Rightarrow> bool" where
  "isPlaceholderOutput (Write x) = True"
| "isPlaceholderOutput RenderPlaceholderCall = True"
| "isPlaceholderOutput e = False"

fun isFunction :: "jsval \<Rightarrow> bool" where
  "isFunction (Function n cs r) = True"
| "isFunction v = False"

text \<open>
  The order of the lifecycle in a trace, read from its start: \<open>begun\<close> and \<open>before\<close>
  tell whether \<^verbatim>\<open>asyncFragmentBegin\<close> and \<^verbatim>\<open>asyncFragmentBeforeRender\<close> have been
  seen. \<^verbatim>\<open>asyncFragmentBeforeRender\<close> must come after a begin, content after a
  before-render.
\<close>

fun lifecycle :: "bool \<Rightarrow> bool \<Rightarrow> effect list \<Rightarrow> bool" where
  "lifecycle begun before [] = True"
| "lifecycle begun before (e # es) =
     (if e = Emit ''asyncFragmentBegin'' then lifecycle True before es
      else if e = Emit ''asyncFragmentBeforeRender'' then begun \<and> lifecycle begun True es
      else if isContent e then before \<and> lifecycle begun before es
      else lifecycle begun before es)"

subsection \<open>Definitions used in the proofs\<close>

text \<open>What one run of \<^verbatim>\<open>renderBody\<close> appends to the trace, as a list.\<close>

definition contentEffects :: "input \<Rightarrow> jsval \<Rightarrow> jsval \<Rightarrow> bool \<Rightarrow> writer \<Rightarrow> effect list" where
  "contentEffects input err data renderTimeout w =
     (if truthy err then
        (if input_renderError input then
           [ConsoleError (''Async fragment ('' @ strOf (nameOf input) @ '') failed. Error:'') err,
            RenderErrorCall w]
         else [WriterError w err])
      else if renderTimeout then [RenderTimeoutCall w]
      else if input_renderBody input then [RenderBodyCall w data]
      else [])"

definition bodyEffects :: "bool \<Rightarrow> input \<Rightarrow> jsval \<Rightarrow> jsval \<Rightarrow> bool \<Rightarrow> render_state \<Rightarrow> effect list" where
  "bodyEffects crs input err data renderTimeout s =
     (if timeoutId s then [ClearTimeout] else [])
     @ (if beginEmitted s then [] else [Emit ''asyncFragmentBegin''])
     @ (if beforeRenderEmitted s then [] else [Emit ''asyncFragmentBeforeRender''])
     @ contentEffects input err data renderTimeout (targetOut s)
     @ (if clientReorderOf crs input then [] else [Emit ''asyncFragmentFinish''])
     @ (case asyncOut s of
          None \<Rightarrow> []
        | Some w \<Rightarrow> WriterEnd w # (if clientReorderOf crs input then [] else [Flush]))"

definition placeholderEffects :: "input \<Rightarrow> fragId \<Rightarrow> effect list" where
  \<open>placeholderEffects input fid =
     (if input_renderPlaceholder input then
        [Write (''<span id="afph'' @ idStr fid @ ''">''), RenderPlaceholderCall, Write ''</span>'']
      else [Write (''<noscript id="afph'' @ idStr fid @ ''"></noscript>'')])\<close>

definition contextOf :: "async_fragments option \<Rightarrow> async_fragments" where
  "contextOf g = (case g of Some c \<Rightarrow> c | None \<Rightarrow> \<lparr>fragments = Some [], nextId = 0\<rparr>)"

text \<open>
  The entries made before \<^verbatim>\<open>renderBody\<close> first runs (line 68, the call of the
  provider, the registrations on the promise); the entries that play no part in the
  lifecycle; the invariant that ties the trace to the two flags and to the counter of
  runs; the state of a call in which \<^verbatim>\<open>renderBody\<close> has not run yet.
\<close>

fun setupEffect :: "effect \<Rightarrow> bool" where
  "setupEffect (AssignArgOut b) = True"
| "setupEffect (ProviderCall as) = True"
| "setupEffect PromiseThen = True"
| "setupEffect PromiseCatch = True"
| "setupEffect PromiseFail = True"
| "setupEffect PromiseDone = True"
| "setupEffect e = False"

definition neutral :: "effect \<Rightarrow> bool" where
  "neutral e = (e \<noteq> Emit ''asyncFragmentBegin'' \<and> e \<noteq> Emit ''asyncFragmentBeforeRender''
                \<and> e \<noteq> Emit ''asyncFragmentFinish'' \<and> \<not> isContent e)"

definition lifecycleInv :: "bool \<Rightarrow> render_state \<Rightarrow> bool" where
  "lifecycleInv cr s =
     (lifecycle False False (trace s)
      \<and> count_list (trace s) (Emit ''asyncFragmentBegin'') = (if beginEmitted s then 1 else 0)
      \<and> (Emit ''asyncFragmentBeforeRender'' \<in> set (trace s)) = beforeRenderEmitted s
      \<and> (beforeRenderEmitted s \<longrightarrow> beginEmitted s)
      \<and> (0 < bodyRuns s) = beforeRenderEmitted s
      \<and> (Emit ''asyncFragmentFinish'' \<in> set (trace s)) = (\<not> cr \<and> 0 < bodyRuns s))"

definition pristine :: "fragment_info \<Rightarrow> render_state \<Rightarrow> bool" where
  "pristine fi s =
     (done_flag s \<or>
      (\<not> timeoutId s \<and> asyncOut s = None \<and> \<not> beginEmitted s \<and> \<not> beforeRenderEmitted s
       \<and> fragmentInfo s = fi \<and> \<not> timerPending s \<and> bodyRuns s = 0
       \<and> list_all setupEffect (trace s)))"

subsection \<open>Example inputs\<close>

text \<open>
  A provider function of one parameter that calls back later, with a body renderer and
  the default timeout; the same with a provider that throws; with client reordering and
  no name; with a promise that has only \<^verbatim>\<open>then\<close>; with a provider function of two
  parameters that returns a promise with a \<^verbatim>\<open>catch\<close>.
\<close>

definition plainInput :: input where
  "plainInput =
     \<lparr>input_dataProvider = Function 1 [] (Returns Undefined), input_arg = False,
      input_clientReorder = Undefined,
      input_name = Some ''frag'', input_uname = None, input_timeout = None,
      input_renderBody = True, input_renderError = False, input_renderTimeout = False,
      input_renderPlaceholder = False, input_showAfter = None\<rparr>"

definition throwingInput :: input where
  "throwingInput = plainInput\<lparr>input_dataProvider := Function 1 [] (Throws (ErrorObj ''boom''))\<rparr>"

definition reorderInput :: input where
  "reorderInput = plainInput\<lparr>input_clientReorder := Boolean True, input_name := None\<rparr>"

definition thenOnlyInput :: input where
  "thenOnlyInput = plainInput\<lparr>input_dataProvider := Thenable False False False None\<rparr>"

definition promiseFnInput :: input where
  "promiseFnInput =
     plainInput\<lparr>input_dataProvider := Function 2 [] (Returns (Thenable True False False None))\<rparr>"

section \<open>Lemmas\<close>

subsection \<open>What each step does to each variable\<close>

lemma perform_fields [simp]:
  "trace (perform e s) = trace s @ [e]"
  "done_flag (perform e s) = done_flag s"
  "timeoutId (perform e s) = timeoutId s"
  "asyncOut (perform e s) = asyncOut s"
  "beginEmitted (perform e s) = beginEmitted s"
  "beforeRenderEmitted (perform e s) = beforeRenderEmitted s"
  "fragmentInfo (perform e s) = fragmentInfo s"
  "global (perform e s) = global s"
  "timerPending (perform e s) = timerPending s"
  "callbackHeld (perform e s) = callbackHeld s"
  "promisePending (perform e s) = promisePending s"
  "bodyRuns (perform e s) = bodyRuns s"
  by (simp_all add: perform_def)

lemma targetOut_perform [simp]: "targetOut (perform e s) = targetOut s"
  by (simp add: targetOut_def)

lemma clearTimer_fields [simp]:
  "trace (clearTimer s) = trace s @ (if timeoutId s then [ClearTimeout] else [])"
  "done_flag (clearTimer s) = done_flag s"
  "timeoutId (clearTimer s) = False"
  "asyncOut (clearTimer s) = asyncOut s"
  "beginEmitted (clearTimer s) = beginEmitted s"
  "beforeRenderEmitted (clearTimer s) = beforeRenderEmitted s"
  "fragmentInfo (clearTimer s) = fragmentInfo s"
  "global (clearTimer s) = global s"
  "timerPending (clearTimer s) = (timerPending s \<and> \<not> timeoutId s)"
  "callbackHeld (clearTimer s) = callbackHeld s"
  "promisePending (clearTimer s) = promisePending s"
  "bodyRuns (clearTimer s) = bodyRuns s"
  by (simp_all add: clearTimer_def)

lemma emitBegin_fields [simp]:
  "trace (emitBegin s) = trace s @ (if beginEmitted s then [] else [Emit ''asyncFragmentBegin''])"
  "done_flag (emitBegin s) = done_flag s"
  "timeoutId (emitBegin s) = timeoutId s"
  "asyncOut (emitBegin s) = asyncOut s"
  "beginEmitted (emitBegin s) = True"
  "beforeRenderEmitted (emitBegin s) = beforeRenderEmitted s"
  "fragmentInfo (emitBegin s) = fragmentInfo s"
  "global (emitBegin s) = global s"
  "timerPending (emitBegin s) = timerPending s"
  "callbackHeld (emitBegin s) = callbackHeld s"
  "promisePending (emitBegin s) = promisePending s"
  "bodyRuns (emitBegin s) = bodyRuns s"
  by (simp_all add: emitBegin_def)

lemma emitBeforeRender_fields [simp]:
  "trace (emitBeforeRender s) =
     trace s @ (if beforeRenderEmitted s then [] else [Emit ''asyncFragmentBeforeRender''])"
  "done_flag (emitBeforeRender s) = done_flag s"
  "timeoutId (emitBeforeRender s) = timeoutId s"
  "asyncOut (emitBeforeRender s) = asyncOut s"
  "beginEmitted (emitBeforeRender s) = beginEmitted s"
  "beforeRenderEmitted (emitBeforeRender s) = True"
  "fragmentInfo (emitBeforeRender s) = fragmentInfo s"
  "global (emitBeforeRender s) = global s"
  "timerPending (emitBeforeRender s) = timerPending s"
  "callbackHeld (emitBeforeRender s) = callbackHeld s"
  "promisePending (emitBeforeRender s) = promisePending s"
  "bodyRuns (emitBeforeRender s) = bodyRuns s"
  by (simp_all add: emitBeforeRender_def)

lemma renderContent_fields [simp]:
  "trace (renderContent input err data rt s) = trace s @ contentEffects input err data rt (targetOut s)"
  "done_flag (renderContent input err data rt s) = done_flag s"
  "timeoutId (renderContent input err data rt s) = timeoutId s"
  "asyncOut (renderContent input err data rt s) = asyncOut s"
  "beginEmitted (renderContent input err data rt s) = beginEmitted s"
  "beforeRenderEmitted (renderContent input err data rt s) = beforeRenderEmitted s"
  "fragmentInfo (renderContent input err data rt s) = fragmentInfo s"
  "global (renderContent input err data rt s) = global s"
  "timerPending (renderContent input err data rt s) = timerPending s"
  "callbackHeld (renderContent input err data rt s) = callbackHeld s"
  "promisePending (renderContent input err data rt s) = promisePending s"
  "bodyRuns (renderContent input err data rt s) = bodyRuns s"
  by (simp_all add: renderContent_def contentEffects_def)

lemma finishFragment_fields [simp]:
  "trace (finishFragment cr s) =
     trace s @ (if cr then [] else [Emit ''asyncFragmentFinish''])
       @ (case asyncOut s of None \<Rightarrow> [] | Some w \<Rightarrow> WriterEnd w # (if cr then [] else [Flush]))"
  "done_flag (finishFragment cr s) = done_flag s"
  "timeoutId (finishFragment cr s) = timeoutId s"
  "asyncOut (finishFragment cr s) = asyncOut s"
  "beginEmitted (finishFragment cr s) = beginEmitted s"
  "beforeRenderEmitted (finishFragment cr s) = beforeRenderEmitted s"
  "fragmentInfo (finishFragment cr s) = fragmentInfo s"
  "global (finishFragment cr s) = global s"
  "timerPending (finishFragment cr s) = timerPending s"
  "callbackHeld (finishFragment cr s) = callbackHeld s"
  "promisePending (finishFragment cr s) = promisePending s"
  "bodyRuns (finishFragment cr s) = bodyRuns s"
  by (simp_all add: finishFragment_def Let_def split: option.split)

lemma renderBody_trace:
  "trace (renderBody crs input err data rt s) = trace s @ bodyEffects crs input err data rt s"
  by (simp add: renderBody_def bodyEffects_def Let_def targetOut_def)

lemma renderBody_fields [simp]:
  "done_flag (renderBody crs input err data rt s) = True"
  "bodyRuns (renderBody crs input err data rt s) = Suc (bodyRuns s)"
  "global (renderBody crs input err data rt s) = global s"
  "callbackHeld (renderBody crs input err data rt s) = callbackHeld s"
  "promisePending (renderBody crs input err data rt s) = promisePending s"
  "asyncOut (renderBody crs input err data rt s) = asyncOut s"
  "timeoutId (renderBody crs input err data rt s) = False"
  "timerPending (renderBody crs input err data rt s) = (timerPending s \<and> \<not> timeoutId s)"
  "beginEmitted (renderBody crs input err data rt s) = True"
  "beforeRenderEmitted (renderBody crs input err data rt s) = True"
  by (simp_all add: renderBody_def Let_def)

lemma armTimeout_fields [simp]:
  "trace (armTimeout input s) =
     trace s @ (case effectiveTimeout input of None \<Rightarrow> [] | Some t \<Rightarrow> [SetTimeout t])"
  "done_flag (armTimeout input s) = done_flag s"
  "timeoutId (armTimeout input s) = (timeoutId s \<or> effectiveTimeout input \<noteq> None)"
  "asyncOut (armTimeout input s) = asyncOut s"
  "beginEmitted (armTimeout input s) = beginEmitted s"
  "beforeRenderEmitted (armTimeout input s) = beforeRenderEmitted s"
  "fragmentInfo (armTimeout input s) = fragmentInfo s"
  "global (armTimeout input s) = global s"
  "timerPending (armTimeout input s) = (timerPending s \<or> effectiveTimeout input \<noteq> None)"
  "callbackHeld (armTimeout input s) = callbackHeld s"
  "promisePending (armTimeout input s) = promisePending s"
  "bodyRuns (armTimeout input s) = bodyRuns s"
  by (simp_all add: armTimeout_def split: option.split)

lemma writePlaceholder_fields [simp]:
  "trace (writePlaceholder input fid s) = trace s @ placeholderEffects input fid"
  "done_flag (writePlaceholder input fid s) = done_flag s"
  "timeoutId (writePlaceholder input fid s) = timeoutId s"
  "asyncOut (writePlaceholder input fid s) = asyncOut s"
  "beginEmitted (writePlaceholder input fid s) = beginEmitted s"
  "beforeRenderEmitted (writePlaceholder input fid s) = beforeRenderEmitted s"
  "fragmentInfo (writePlaceholder input fid s) = fragmentInfo s"
  "global (writePlaceholder input fid s) = global s"
  "timerPending (writePlaceholder input fid s) = timerPending s"
  "callbackHeld (writePlaceholder input fid s) = callbackHeld s"
  "promisePending (writePlaceholder input fid s) = promisePending s"
  "bodyRuns (writePlaceholder input fid s) = bodyRuns s"
  by (simp_all add: writePlaceholder_def placeholderEffects_def)

lemma clientReorderBranch_fields [simp]:
  "trace (clientReorderBranch input s) =
     trace s @ placeholderEffects input (fst (fragmentId input (contextOf (global s)))) @ [CreateWriter]"
  "done_flag (clientReorderBranch input s) = done_flag s"
  "timeoutId (clientReorderBranch input s) = timeoutId s"
  "asyncOut (clientReorderBranch input s) = Some ReorderOut"
  "beginEmitted (clientReorderBranch input s) = beginEmitted s"
  "beforeRenderEmitted (clientReorderBranch input s) = beforeRenderEmitted s"
  "timerPending (clientReorderBranch input s) = timerPending s"
  "callbackHeld (clientReorderBranch input s) = callbackHeld s"
  "promisePending (clientReorderBranch input s) = promisePending s"
  "bodyRuns (clientReorderBranch input s) = bodyRuns s"
  by (simp_all add: clientReorderBranch_def contextOf_def Let_def split: prod.split)

lemma clientReorderBranch_fragmentInfo:
  "fragmentInfo (clientReorderBranch input s) =
     (fragmentInfo s)\<lparr>fi_out := Some ReorderOut,
        fi_id := Some (fst (fragmentId input (contextOf (global s)))),
        fi_asyncValue := True, fi_after := input_showAfter input\<rparr>"
  by (simp add: clientReorderBranch_def contextOf_def Let_def split: prod.split)

lemma clientReorderBranch_global:
  "global (clientReorderBranch input s) =
     Some (pushFragment
             ((fragmentInfo s)\<lparr>fi_out := Some ReorderOut,
                fi_id := Some (fst (fragmentId input (contextOf (global s)))),
                fi_asyncValue := True, fi_after := input_showAfter input\<rparr>)
             (snd (fragmentId input (contextOf (global s)))))"
  by (cases "fragmentId input (contextOf (global s))")
     (simp add: clientReorderBranch_def contextOf_def Let_def)

lemma beginAsyncBranch_fields [simp]:
  "trace (beginAsyncBranch input s) = trace s @ [Flush, BeginAsync 0 (nameOf input)]"
  "done_flag (beginAsyncBranch input s) = done_flag s"
  "timeoutId (beginAsyncBranch input s) = timeoutId s"
  "asyncOut (beginAsyncBranch input s) = Some BeginAsyncOut"
  "beginEmitted (beginAsyncBranch input s) = beginEmitted s"
  "beforeRenderEmitted (beginAsyncBranch input s) = beforeRenderEmitted s"
  "fragmentInfo (beginAsyncBranch input s) = (fragmentInfo s)\<lparr>fi_out := Some BeginAsyncOut\<rparr>"
  "global (beginAsyncBranch input s) = global s"
  "timerPending (beginAsyncBranch input s) = timerPending s"
  "callbackHeld (beginAsyncBranch input s) = callbackHeld s"
  "promisePending (beginAsyncBranch input s) = promisePending s"
  "bodyRuns (beginAsyncBranch input s) = bodyRuns s"
  by (simp_all add: beginAsyncBranch_def Let_def)

subsection \<open>Invariants carry through a request and through the events\<close>

lemma deliver_invariant:
  assumes cb: "\<And>e d s. P s \<Longrightarrow> P (cb e d s)" and s: "P s"
  shows "P (deliver cb cs s)"
  using s
proof (induction cs arbitrary: s)
  case Nil
  then show ?case by simp
next
  case (Cons c cs)
  obtain e d where c: "c = (e, d)" by (cases c)
  have "P (cb e d s)" by (rule cb [OF Cons.prems])
  then have "P (deliver cb cs (cb e d s))" by (rule Cons.IH)
  then show ?case by (simp add: c)
qed

lemma promiseToCallback_invariant:
  assumes eff: "\<And>e s. setupEffect e \<Longrightarrow> P s \<Longrightarrow> P (perform e s)"
    and pend: "\<And>x s. P s \<Longrightarrow> P (s\<lparr>promisePending := x\<rparr>)"
    and cb: "\<And>e d s. P s \<Longrightarrow> P (cb e d s)"
    and s: "P s"
  shows "P (promiseToCallback p (Some cb) s)"
proof (cases p)
  case (Thenable c f d st)
  have 1: "P (perform PromiseThen s)" using s by (simp add: eff)
  define s2 where "s2 = (case st of Some (Fulfilled v) \<Rightarrow> cb Null v (perform PromiseThen s)
                          | _ \<Rightarrow> perform PromiseThen s)"
  have 2: "P s2" unfolding s2_def using 1 by (auto split: option.split outcome.split intro: cb)
  define s3 where "s3 = (if c then perform PromiseCatch s2
                         else if f then perform PromiseFail s2 else s2)"
  have 3: "P s3" unfolding s3_def using 2 by (simp add: eff)
  define s4 where "s4 = (case st of
                  Some (Rejected e) \<Rightarrow> if c \<or> f then cb e Undefined s3 else s3
                | _ \<Rightarrow> s3)"
  have 4: "P s4" unfolding s4_def using 3 by (auto split: option.split outcome.split intro: cb)
  define s5 where "s5 = (if d then perform PromiseDone s4 else s4)"
  have 5: "P s5" unfolding s5_def using 4 by (simp add: eff)
  have "promiseToCallback p (Some cb) s =
          s5\<lparr>promisePending := (case st of None \<Rightarrow> Some (c \<or> f) | Some x \<Rightarrow> None)\<rparr>"
    unfolding Thenable s5_def s4_def s3_def s2_def by (simp add: Let_def)
  then show ?thesis using 5 by (simp add: pend)
qed (use s in simp_all)

lemma requestData_invariant:
  assumes eff: "\<And>e s. setupEffect e \<Longrightarrow> P s \<Longrightarrow> P (perform e s)"
    and pend: "\<And>x s. P s \<Longrightarrow> P (s\<lparr>promisePending := x\<rparr>)"
    and held: "\<And>s. P s \<Longrightarrow> P (s\<lparr>callbackHeld := True\<rparr>)"
    and cb: "\<And>e d s. P s \<Longrightarrow> P (cb e d s)"
    and s: "P s"
  shows "case requestData p cb s of Inl (e, s') \<Rightarrow> P s' | Inr s' \<Rightarrow> P s'"
proof (cases p)
  case (Thenable c f d st)
  then show ?thesis
    using promiseToCallback_invariant [of P cb s "Thenable c f d st", OF eff pend cb s]
    by simp
next
  case (Function n calls r)
  define s1 where "s1 = deliver cb calls
     ((perform (ProviderCall (if n = 1 then [CallbackFn] else [ArgsObject, CallbackFn])) s)
        \<lparr>callbackHeld := True\<rparr>)"
  have 0: "P ((perform (ProviderCall (if n = 1 then [CallbackFn] else [ArgsObject, CallbackFn])) s)
        \<lparr>callbackHeld := True\<rparr>)"
    by (rule held, rule eff, simp, rule s)
  have 1: "P s1" unfolding s1_def
    by (rule deliver_invariant [of P cb, OF cb 0])
  have 2: "P (promiseToCallback v (Some cb) s1)" for v
    by (rule promiseToCallback_invariant [OF eff pend cb 1])
  have eq: "requestData (Function n calls r) cb s =
      (case r of
         Throws e \<Rightarrow> Inl (e, s1)
       | Returns data \<Rightarrow>
           if data \<noteq> Undefined then
             (if isPromise data then Inr (promiseToCallback data (Some cb) s1)
              else Inr (cb Null data s1))
           else Inr s1)"
    unfolding s1_def by (simp add: Let_def)
  show ?thesis
    unfolding Function eq using 1 2 cb [OF 1]
    by (simp split: completion.split)
qed (use s in \<open>simp_all add: cb\<close>)

lemma step_invariant:
  assumes body: "\<And>e d rt s. P s \<Longrightarrow> P (renderBody crs input e d rt s)"
    and eff: "\<And>m s. P s \<Longrightarrow> P (perform (LoggerError m) s)"
    and timer: "\<And>s. P s \<Longrightarrow> P (s\<lparr>timerPending := False\<rparr>)"
    and pend: "\<And>x s. P s \<Longrightarrow> P (s\<lparr>promisePending := x\<rparr>)"
    and s: "P s"
  shows "P (step crs input ev s)"
proof (cases ev)
  case TimerFires
  then show ?thesis using s by (simp add: body eff timer)
next
  case (ProviderCallback e d)
  then show ?thesis using s by (simp add: body)
next
  case (PromiseSettles oc)
  then show ?thesis using s
    by (simp add: body pend split: option.split outcome.split)
qed

lemma run_invariant:
  assumes body: "\<And>e d rt s. P s \<Longrightarrow> P (renderBody crs input e d rt s)"
    and eff: "\<And>m s. P s \<Longrightarrow> P (perform (LoggerError m) s)"
    and timer: "\<And>s. P s \<Longrightarrow> P (s\<lparr>timerPending := False\<rparr>)"
    and pend: "\<And>x s. P s \<Longrightarrow> P (s\<lparr>promisePending := x\<rparr>)"
    and s: "P s"
  shows "P (run crs input evs s)"
  using s
proof (induction evs arbitrary: s)
  case Nil
  then show ?case by simp
next
  case (Cons ev evs)
  have "P (step crs input ev s)"
    by (rule step_invariant [of P, OF body eff timer pend Cons.prems])
  then show ?case by (simp add: Cons.IH)
qed

subsection \<open>The lifecycle invariant\<close>

lemma lifecycle_append:
  "lifecycle b p (xs @ ys) =
     (lifecycle b p xs \<and>
      lifecycle (b \<or> Emit ''asyncFragmentBegin'' \<in> set xs)
                (p \<or> Emit ''asyncFragmentBeforeRender'' \<in> set xs) ys)"
  by (induction xs arbitrary: b p) auto

lemma begin_member_count:
  "(Emit ''asyncFragmentBegin'' \<in> set xs) = (0 < count_list xs (Emit ''asyncFragmentBegin''))"
  by (induction xs) auto

lemma lifecycle_neutral: "list_all neutral es \<Longrightarrow> lifecycle b p es"
  by (induction es) (auto simp: neutral_def)

lemma neutral_not_member:
  assumes "list_all neutral es"
  shows "Emit ''asyncFragmentBegin'' \<notin> set es" "Emit ''asyncFragmentBeforeRender'' \<notin> set es"
    "Emit ''asyncFragmentFinish'' \<notin> set es" "count_list es (Emit ''asyncFragmentBegin'') = 0"
  using assms by (induction es) (auto simp: neutral_def)

lemma lifecycleInv_neutral:
  assumes "lifecycleInv cr s" and "trace s' = trace s @ es" and "list_all neutral es"
    and "beginEmitted s' = beginEmitted s" and "beforeRenderEmitted s' = beforeRenderEmitted s"
    and "bodyRuns s' = bodyRuns s"
  shows "lifecycleInv cr s'"
  using assms neutral_not_member [OF assms(3)] lifecycle_neutral [OF assms(3)]
  by (simp add: lifecycleInv_def lifecycle_append)

lemma lifecycleInv_emitBegin:
  assumes "lifecycleInv cr s" shows "lifecycleInv cr (emitBegin s)"
  using assms by (auto simp: lifecycleInv_def lifecycle_append)

lemma contentEffects_facts:
  "lifecycle b True (contentEffects input err data rt w)"
  "Emit ''asyncFragmentBegin'' \<notin> set (contentEffects input err data rt w)"
  "Emit ''asyncFragmentBeforeRender'' \<notin> set (contentEffects input err data rt w)"
  "Emit ''asyncFragmentFinish'' \<notin> set (contentEffects input err data rt w)"
  "count_list (contentEffects input err data rt w) (Emit ''asyncFragmentBegin'') = 0"
  by (simp_all add: contentEffects_def)

lemma lifecycleInv_renderBody:
  assumes "lifecycleInv cr s" and "cr = clientReorderOf crs input"
  shows "lifecycleInv cr (renderBody crs input err data rt s)"
  using assms
  by (auto simp: lifecycleInv_def renderBody_trace bodyEffects_def lifecycle_append
      contentEffects_facts begin_member_count split: option.split)

lemma lifecycleInv_initial: "lifecycleInv cr (initialState crs input g)"
  by (simp add: lifecycleInv_def initialState_def)

lemma setupEffect_neutral: "setupEffect e \<Longrightarrow> neutral e"
  by (cases e) (simp_all add: neutral_def)

lemma lifecycleInv_perform: "neutral e \<Longrightarrow> lifecycleInv cr s \<Longrightarrow> lifecycleInv cr (perform e s)"
  by (rule lifecycleInv_neutral [where es = "[e]"]) simp_all

lemma lifecycleInv_updates [simp]:
  "lifecycleInv cr (s\<lparr>promisePending := x\<rparr>) = lifecycleInv cr s"
  "lifecycleInv cr (s\<lparr>callbackHeld := y\<rparr>) = lifecycleInv cr s"
  "lifecycleInv cr (s\<lparr>timerPending := z\<rparr>) = lifecycleInv cr s"
  by (simp_all add: lifecycleInv_def)

lemma lifecycleInv_requestData:
  assumes "cr = clientReorderOf crs input"
  shows "case requestData p (\<lambda>err data. renderBody crs input err data False)
                (initialState crs input g) of
           Inl (e, s') \<Rightarrow> lifecycleInv cr s' | Inr s' \<Rightarrow> lifecycleInv cr s'"
  by (rule requestData_invariant)
     (simp_all add: lifecycleInv_perform setupEffect_neutral lifecycleInv_renderBody assms
        lifecycleInv_initial)

lemma neutral_placeholderEffects: "list_all neutral (placeholderEffects input fid)"
  by (simp add: placeholderEffects_def neutral_def)

lemma lifecycleInv_tail:
  assumes "lifecycleInv cr s1"
  shows "lifecycleInv cr (emitBegin
                (if \<not> done_flag s1 then
                   (if c then clientReorderBranch input (armTimeout input s1)
                    else beginAsyncBranch input (armTimeout input s1))
                 else s1))"
proof -
  have a: "lifecycleInv cr (armTimeout input s1)"
    by (rule lifecycleInv_neutral [OF assms, where es = "case effectiveTimeout input of None \<Rightarrow> [] | Some t \<Rightarrow> [SetTimeout t]"])
       (simp_all add: neutral_def split: option.split)
  have b: "lifecycleInv cr (clientReorderBranch input (armTimeout input s1))"
    by (rule lifecycleInv_neutral [OF a, where es = "placeholderEffects input (fst (fragmentId input (contextOf (global (armTimeout input s1))))) @ [CreateWriter]"])
       (simp_all add: neutral_placeholderEffects, simp add: neutral_def)
  have c: "lifecycleInv cr (beginAsyncBranch input (armTimeout input s1))"
    by (rule lifecycleInv_neutral [OF a, where es = "[Flush, BeginAsync 0 (nameOf input)]"])
       (simp_all add: neutral_def)
  show ?thesis using assms b c by (simp add: lifecycleInv_emitBegin)
qed

lemma lifecycleInv_render:
  assumes "render crs input g = Inr s"
  shows "lifecycleInv (clientReorderOf crs input) s \<and> beginEmitted s"
proof -
  let ?r = "requestData (input_dataProvider input)
             (\<lambda>err data. renderBody crs input err data False) (initialState crs input g)"
  from assms obtain s1 where r: "?r = Inr s1"
    by (auto simp: render_def split: sum.splits)
  have "lifecycleInv (clientReorderOf crs input) s1"
    using lifecycleInv_requestData [of "clientReorderOf crs input" crs input "input_dataProvider input" g]
    by (simp add: r)
  then show ?thesis
    using assms lifecycleInv_tail [of "clientReorderOf crs input" s1 "clientReorderOf crs input" input]
    by (auto simp: render_def r)
qed

lemma lifecycleInv_run:
  assumes "lifecycleInv (clientReorderOf crs input) s \<and> beginEmitted s"
  shows "lifecycleInv (clientReorderOf crs input) (run crs input evs s)
         \<and> beginEmitted (run crs input evs s)"
  by (rule run_invariant [where P = "\<lambda>s. lifecycleInv (clientReorderOf crs input) s \<and> beginEmitted s"])
     (simp_all add: assms lifecycleInv_renderBody lifecycleInv_perform neutral_def)

subsection \<open>Content, timers and the placeholder\<close>


lemma filter_isErrorSink_bodyEffects:
  "filter isErrorSink (bodyEffects crs input err data rt s) =
     (if truthy err then
        [if input_renderError input then RenderErrorCall (targetOut s)
         else WriterError (targetOut s) err]
      else [])"
  by (simp add: bodyEffects_def contentEffects_def split: option.split)

lemma targetOut_updates [simp]:
  "targetOut (s\<lparr>timerPending := x\<rparr>) = targetOut s"
  "targetOut (s\<lparr>promisePending := y\<rparr>) = targetOut s"
  "targetOut (s\<lparr>callbackHeld := z\<rparr>) = targetOut s"
  by (simp_all add: targetOut_def)

lemma pristine_requestData:
  "case requestData p (\<lambda>err data. renderBody crs input err data False)
          (initialState crs input g) of
     Inl (e, s') \<Rightarrow> pristine (fragmentInfo (initialState crs input g)) s' \<and> global s' = g
   | Inr s' \<Rightarrow> pristine (fragmentInfo (initialState crs input g)) s' \<and> global s' = g"
  by (rule requestData_invariant
        [where P = "\<lambda>s. pristine (fragmentInfo (initialState crs input g)) s \<and> global s = g"])
     (simp_all add: pristine_def, simp add: initialState_def)

lemma timer_handle_run:
  assumes "timerPending s \<longrightarrow> timeoutId s"
  shows "timerPending (run crs input evs s) \<longrightarrow> timeoutId (run crs input evs s)"
  by (rule run_invariant [where P = "\<lambda>s. timerPending s \<longrightarrow> timeoutId s"])
     (simp_all add: assms)

lemma filter_setupEffect:
  assumes "list_all setupEffect es"
  shows "filter isSetTimeout es = []" "filter isPlaceholderOutput es = []"
  using assms by (induction es) (auto elim: setupEffect.elims)

lemma render_pending:
  assumes r: "render crs input g = Inr s" and nd: "\<not> done_flag s"
  obtains s1 where
    "s = emitBegin (if clientReorderOf crs input
                    then clientReorderBranch input (armTimeout input s1)
                    else beginAsyncBranch input (armTimeout input s1))"
    and "\<not> timeoutId s1" and "\<not> timerPending s1" and "\<not> beginEmitted s1"
    and "fragmentInfo s1 = fragmentInfo (initialState crs input g)"
    and "list_all setupEffect (trace s1)" and "global s1 = g" and "bodyRuns s1 = 0"
proof -
  let ?r = "requestData (input_dataProvider input)
             (\<lambda>err data. renderBody crs input err data False) (initialState crs input g)"
  from r obtain s1 where r1: "?r = Inr s1"
    by (auto simp: render_def split: sum.splits)
  have p: "pristine (fragmentInfo (initialState crs input g)) s1 \<and> global s1 = g"
    using pristine_requestData [where p = "input_dataProvider input" and crs = crs and input = input and g = g] by (simp add: r1)
  have nd1: "\<not> done_flag s1"
  proof
    assume "done_flag s1"
    then have "s = emitBegin s1" using r by (simp add: render_def r1)
    then show False using nd \<open>done_flag s1\<close> by simp
  qed
  then have s: "s = emitBegin (if clientReorderOf crs input
                    then clientReorderBranch input (armTimeout input s1)
                    else beginAsyncBranch input (armTimeout input s1))"
    using r by (simp add: render_def r1)
  show thesis
    using that [OF s] p nd1 by (simp add: pristine_def)
qed

lemma render_global:
  "case render crs input g of
     Inl (e, s) \<Rightarrow> global s = g
   | Inr s \<Rightarrow> done_flag s \<or> \<not> clientReorderOf crs input \<longrightarrow> global s = g"
proof -
  let ?r = "requestData (input_dataProvider input)
             (\<lambda>err data. renderBody crs input err data False) (initialState crs input g)"
  show ?thesis
  proof (cases ?r)
    case (Inl x)
    then show ?thesis
      using pristine_requestData [where p = "input_dataProvider input" and crs = crs and input = input and g = g]
      by (cases x) (simp add: render_def)
  next
    case (Inr s1)
    then show ?thesis
      using pristine_requestData [where p = "input_dataProvider input" and crs = crs and input = input and g = g]
      by (simp add: render_def)
  qed
qed

lemma first_entry_requestData:
  "case requestData p (\<lambda>err data. renderBody crs input err data False)
          (initialState crs input g) of
     Inl (e, s') \<Rightarrow> (\<exists>ys. trace s' = AssignArgOut (input_arg input) # ys)
   | Inr s' \<Rightarrow> (\<exists>ys. trace s' = AssignArgOut (input_arg input) # ys)"
  by (rule requestData_invariant
        [where P = "\<lambda>s. \<exists>ys. trace s = AssignArgOut (input_arg input) # ys"])
     (auto simp: renderBody_trace initialState_def)

lemma first_entry_render:
  "take 1 (trace (stateOf (render crs input g))) = [AssignArgOut (input_arg input)]"
proof -
  let ?r = "requestData (input_dataProvider input)
             (\<lambda>err data. renderBody crs input err data False) (initialState crs input g)"
  show ?thesis
  proof (cases ?r)
    case (Inl x)
    then show ?thesis
      using first_entry_requestData [where p = "input_dataProvider input" and crs = crs
          and input = input and g = g]
      by (cases x) (auto simp: render_def)
  next
    case (Inr s1)
    then show ?thesis
      using first_entry_requestData [where p = "input_dataProvider input" and crs = crs
          and input = input and g = g]
      by (auto simp: render_def)
  qed
qed




lemma run_append: "run crs input (xs @ ys) s = run crs input ys (run crs input xs s)"
  by (induction xs arbitrary: s) simp_all

lemma run_idle:
  assumes "\<not> callbackHeld s" and "promisePending s = None" and "TimerFires \<notin> set evs"
  shows "run crs input evs s = s"
  using assms
proof (induction evs)
  case Nil
  then show ?case by simp
next
  case (Cons ev evs)
  then have "step crs input ev s = s" by (cases ev) simp_all
  then show ?case using Cons by simp
qed

lemma render_then_only:
  assumes p: "input_dataProvider input = Thenable False False d None"
  obtains s where "render crs input g = Inr s" and "bodyRuns s = 0" and "\<not> callbackHeld s"
    and "promisePending s = Some False" and "filter isContent (trace s) = []"
    and "timerPending s = (effectiveTimeout input \<noteq> None)"
proof -
  define s1 where "s1 = promiseToCallback (Thenable False False d None)
      (Some (\<lambda>err data. renderBody crs input err data False)) (initialState crs input g)"
  define s where "s = emitBegin (if clientReorderOf crs input
                    then clientReorderBranch input (armTimeout input s1)
                    else beginAsyncBranch input (armTimeout input s1))"
  have f1: "\<not> done_flag s1" "bodyRuns s1 = 0" "\<not> callbackHeld s1" "promisePending s1 = Some False"
    "\<not> timerPending s1" "filter isContent (trace s1) = []"
    by (simp_all add: s1_def initialState_def Let_def)
  have rq: "requestData (input_dataProvider input)
             (\<lambda>err data. renderBody crs input err data False) (initialState crs input g) = Inr s1"
    by (simp only: p requestData.simps s1_def)
  have r: "render crs input g = Inr s"
    using f1(1) by (simp add: render_def rq s_def)
  show thesis
    by (rule that [OF r])
       (simp_all add: s_def f1 placeholderEffects_def split: option.split)
qed

subsection \<open>Evaluating the examples\<close>

lemmas eval_defs = render_def renderThen_def initialState_def renderBody_trace bodyEffects_def
  contentEffects_def placeholderEffects_def clientReorderOf_def effectiveTimeout_def
  timeoutMessage_def timeoutError_def nameOf_def numStr_def digits.simps targetOut_def
  fragmentId_def
  contextOf_def pushFragment_def Let_def

lemma render_plain: "render False plainInput None = Inr (stateOf (render False plainInput None))"
  by (simp add: render_def plainInput_def)

lemma render_reorder:
  "render True reorderInput None = Inr (stateOf (render True reorderInput None))"
  by (simp add: render_def reorderInput_def plainInput_def)

lemma pending_plain:
  "\<not> done_flag (stateOf (render False plainInput None))"
  "timerPending (stateOf (render False plainInput None))"
  "callbackHeld (stateOf (render False plainInput None))"
  by (simp_all add: eval_defs plainInput_def)

lemma pending_reorder:
  "\<not> done_flag (stateOf (render True reorderInput None))"
  by (simp_all add: eval_defs reorderInput_def plainInput_def)

lemma pending_promiseFn:
  "callbackHeld (stateOf (render False promiseFnInput None))"
  "promisePending (stateOf (render False promiseFnInput None)) = Some True"
  "targetOut (stateOf (render False promiseFnInput None)) = BeginAsyncOut"
  "filter isErrorSink (trace (stateOf (render False promiseFnInput None))) = []"
  "\<not> input_renderError promiseFnInput"
  by (simp_all add: eval_defs promiseFnInput_def plainInput_def)

lemma first_reorder_global:
  "global (stateOf (render True reorderInput None)) =
     Some \<lparr>fragments = Some [\<lparr>fi_name = None, fi_clientReorder = True,
                   fi_out = Some ReorderOut, fi_id = Some (CounterId 0),
                   fi_asyncValue = True, fi_after = None\<rparr>],
              nextId = 1\<rparr>"
  by (simp add: render_def reorderInput_def plainInput_def initialState_def
      clientReorderBranch_global clientReorderOf_def fragmentId_def contextOf_def pushFragment_def
      nameOf_def)

section \<open>The claims\<close>

subsection \<open>C1: one resolution per call\<close>

text \<open>
  Claim C1: every call of \<^verbatim>\<open>render\<close> resolves its data source into exactly one run of
  \<^verbatim>\<open>renderBody\<close>, and a provider result that arrives after the timeout has fired is
  ignored. \<^verbatim>\<open>renderBody\<close> clears the timer when it runs, so a result that arrives first
  keeps the timer from rendering again, but nothing guards the other order:
  \<^verbatim>\<open>renderBody\<close> never tests \<^verbatim>\<open>done\<close>. With the provider of \<open>plainInput\<close>
  (no call back before the timeout, the default 10000 ms), the timer fires and the
  timeout error is written to the nested stream, which is ended; the late call of the
  callback then runs \<^verbatim>\<open>renderBody\<close> a second time, which renders the body into the
  ended stream, emits \<^verbatim>\<open>asyncFragmentFinish\<close> again and ends and flushes again.
\<close>

theorem late_result_renders_again:
  "map_option bodyRuns (renderThen False plainInput None [TimerFires, ProviderCallback Null (Str ''late'')]) = Some 2
   \<and> map_option trace (renderThen False plainInput None [TimerFires, ProviderCallback Null (Str ''late'')]) =
      Some [AssignArgOut False, ProviderCall [CallbackFn], SetTimeout 10000, Flush,
       BeginAsync 0 (Some ''frag''), Emit ''asyncFragmentBegin'',
       ClearTimeout, Emit ''asyncFragmentBeforeRender'',
       WriterError BeginAsyncOut
        (ErrorObj ''Async fragment (frag) timed out after 10000ms''),
       Emit ''asyncFragmentFinish'', WriterEnd BeginAsyncOut, Flush,
       RenderBodyCall BeginAsyncOut (Str ''late''),
       Emit ''asyncFragmentFinish'', WriterEnd BeginAsyncOut, Flush]"
  by (simp add: renderThen_def render_def plainInput_def initialState_def renderBody_trace
      bodyEffects_def contentEffects_def clientReorderOf_def effectiveTimeout_def timeoutMessage_def
      timeoutError_def
      nameOf_def numStr_def digits.simps targetOut_def)

subsection \<open>C2: where the errors of the provider go\<close>

text \<open>
  Claim C2, as amended: an error that is the truthy first argument of the provider's
  callback (in a call made before the provider returns or later), or the truthy rejection
  of a promise that has a \<^verbatim>\<open>catch\<close> or a \<^verbatim>\<open>fail\<close>, is delivered to exactly one
  of \<^verbatim>\<open>input.renderError\<close> (when supplied) and the \<^verbatim>\<open>error\<close> of the target writer;
  a pending promise has a rejection handler exactly when it has a \<^verbatim>\<open>catch\<close> or a
  \<^verbatim>\<open>fail\<close>; an error the provider function throws is not caught, leaves
  \<^verbatim>\<open>requestData\<close> as an exception and reaches neither.
\<close>

theorem provider_errors_reach_one_sink:
  assumes "truthy err"
  shows "filter isErrorSink
           (trace (stateOf (requestData (Function n [(err, data)] (Returns Undefined))
                              (\<lambda>e d. renderBody crs input e d False) s))) =
           filter isErrorSink (trace s) @
             [if input_renderError input then RenderErrorCall (targetOut s)
              else WriterError (targetOut s) err]
         \<and> (callbackHeld s \<longrightarrow>
              filter isErrorSink (trace (step crs input (ProviderCallback err data) s)) =
                filter isErrorSink (trace s) @
                  [if input_renderError input then RenderErrorCall (targetOut s)
                   else WriterError (targetOut s) err])
         \<and> (promisePending s = Some True \<longrightarrow>
              filter isErrorSink (trace (step crs input (PromiseSettles (Rejected err)) s)) =
                filter isErrorSink (trace s) @
                  [if input_renderError input then RenderErrorCall (targetOut s)
                   else WriterError (targetOut s) err])
         \<and> promisePending (promiseToCallback (Thenable c f d None) (Some cb) s) = Some (c \<or> f)
         \<and> (\<exists>s'. requestData (Function n [] (Throws e)) cb s = Inl (e, s')
                  \<and> filter isErrorSink (trace s') = filter isErrorSink (trace s))"
  using assms
  by (simp add: renderBody_trace filter_isErrorSink_bodyEffects Let_def)

text \<open>
  The theorem at a provider function that returns a promise with a \<^verbatim>\<open>catch\<close>: after
  \<^verbatim>\<open>render\<close> the callback is held and the promise is pending with its handler; an error
  through either reaches the \<^verbatim>\<open>error\<close> of the nested stream, once.
\<close>

theorem provider_errors_reach_one_sink_witness:
  "truthy (ErrorObj ''boom'')
   \<and> callbackHeld (stateOf (render False promiseFnInput None))
   \<and> promisePending (stateOf (render False promiseFnInput None)) = Some True
   \<and> filter isErrorSink
        (trace (step False promiseFnInput (ProviderCallback (ErrorObj ''boom'') Undefined)
                  (stateOf (render False promiseFnInput None))))
       = [WriterError BeginAsyncOut (ErrorObj ''boom'')]
   \<and> filter isErrorSink
        (trace (step False promiseFnInput (PromiseSettles (Rejected (ErrorObj ''boom'')))
                  (stateOf (render False promiseFnInput None))))
       = [WriterError BeginAsyncOut (ErrorObj ''boom'')]"
  using provider_errors_reach_one_sink
    [where err = "ErrorObj ''boom''" and data = Undefined and crs = False
       and input = promiseFnInput and s = "stateOf (render False promiseFnInput None)"]
    pending_promiseFn
  by simp

text \<open>
  Claim C2 as stated fails for an error the provider throws: \<^verbatim>\<open>render\<close> ends with that
  exception, and the trace holds the assignment of line 68 and the call of the provider,
  and nothing else.
\<close>

theorem throw_reaches_no_error_sink:
  "render False throwingInput None =
     Inl (ErrorObj ''boom'',
          (initialState False throwingInput None)
            \<lparr>trace := [AssignArgOut False, ProviderCall [CallbackFn]], callbackHeld := True\<rparr>)"
  by (simp add: render_def throwingInput_def plainInput_def initialState_def perform_def)

subsection \<open>C3: the timeout\<close>



subsection \<open>C4: the state a call leaves behind\<close>

text \<open>
  Claim C4, as amended: the variables of a call are built anew by each call
  (\<open>initialState\<close>), but two things outlive it. The first thing a call does is assign
  \<^verbatim>\<open>out\<close> on the arguments object, which is the caller's own when \<^verbatim>\<open>input.arg\<close> is
  supplied. And \<^verbatim>\<open>out.global.__asyncFragments\<close> is shared with later calls: a call
  whose provider throws, a call that completes before it returns, and a call without
  client reordering leave it as they found it. A call in client-reorder mode that has not completed when it
  returns leaves the context (created when absent) with \<^verbatim>\<open>nextId\<close> incremented when
  \<^verbatim>\<open>input.name\<close> is absent or empty, and with the fragment info of the call pushed on
  \<^verbatim>\<open>fragments\<close> when that list is present.
\<close>

theorem shared_fragment_context:
  "take 1 (trace (stateOf (render crs input g))) = [AssignArgOut (input_arg input)]
   \<and> (case render crs input g of
         Inl (e, s) \<Rightarrow> global s = g
       | Inr s \<Rightarrow>
           global s =
             (if \<not> done_flag s \<and> clientReorderOf crs input then
                (let ctx = (case g of Some c \<Rightarrow> c | None \<Rightarrow> \<lparr>fragments = Some [], nextId = 0\<rparr>);
                     ctx1 = snd (fragmentId input ctx)
                 in Some (pushFragment (fragmentInfo s) ctx1))
              else g))"
proof -
  have shared: "case render crs input g of
         Inl (e, s) \<Rightarrow> global s = g
       | Inr s \<Rightarrow>
           global s =
             (if \<not> done_flag s \<and> clientReorderOf crs input then
                (let ctx = (case g of Some c \<Rightarrow> c | None \<Rightarrow> \<lparr>fragments = Some [], nextId = 0\<rparr>);
                     ctx1 = snd (fragmentId input ctx)
                 in Some (pushFragment (fragmentInfo s) ctx1))
              else g)"
  proof (cases "render crs input g")
    case (Inl x)
    then show ?thesis
      using render_global [where crs = crs and input = input and g = g] by (cases x) simp
  next
    case (Inr s)
    show ?thesis
    proof (cases "\<not> done_flag s \<and> clientReorderOf crs input")
      case False
      then show ?thesis
        using render_global [where crs = crs and input = input and g = g] Inr by auto
    next
      case True
      then obtain s1 where s: "s = emitBegin (clientReorderBranch input (armTimeout input s1))"
        and s1: "global s1 = g"
        using render_pending [OF Inr] by metis
      show ?thesis
        using True s1
        by (simp add: Inr s clientReorderBranch_global clientReorderBranch_fragmentInfo
            contextOf_def Let_def)
    qed
  qed
  show ?thesis
    using shared first_entry_render [where crs = crs and input = input and g = g] by blast
qed

text \<open>
  Claim C4 as stated fails in client-reorder mode: the first call leaves a context
  behind and takes the id 0 from it; a second call with the same input on that context
  reads the counter the first one incremented and writes the id 1.
\<close>

theorem second_render_observes_first:
  \<open>global (stateOf (render True reorderInput None)) \<noteq> None
   \<and> filter isPlaceholderOutput (trace (stateOf (render True reorderInput None)))
       = [Write ''<noscript id="afph0"></noscript>'']
   \<and> filter isPlaceholderOutput
        (trace (stateOf (render True reorderInput (global (stateOf (render True reorderInput None))))))
       = [Write ''<noscript id="afph1"></noscript>'']\<close>
  unfolding first_reorder_global
  by (simp add: eval_defs reorderInput_def plainInput_def)

subsection \<open>C5: the three lifecycle events\<close>

text \<open>
  Claim C5, as amended: in every execution in which \<^verbatim>\<open>render\<close> returns,
  \<^verbatim>\<open>asyncFragmentBegin\<close> is emitted; \<^verbatim>\<open>asyncFragmentBeforeRender\<close> is emitted exactly
  when \<^verbatim>\<open>renderBody\<close> has run; \<^verbatim>\<open>asyncFragmentFinish\<close> is emitted by this function
  exactly when \<^verbatim>\<open>renderBody\<close> has run and client reordering is not in effect: with
  client reordering it is never emitted here.
\<close>

theorem lifecycle_events_emitted:
  assumes "render crs input g = Inr s"
  shows "Emit ''asyncFragmentBegin'' \<in> set (trace (run crs input evs s))
         \<and> (Emit ''asyncFragmentBeforeRender'' \<in> set (trace (run crs input evs s)))
             = (0 < bodyRuns (run crs input evs s))
         \<and> (Emit ''asyncFragmentFinish'' \<in> set (trace (run crs input evs s)))
             = (\<not> clientReorderOf crs input \<and> 0 < bodyRuns (run crs input evs s))"
  using lifecycleInv_run [OF lifecycleInv_render [OF assms], of evs]
  by (simp add: lifecycleInv_def begin_member_count)

text \<open>The theorem at \<open>plainInput\<close>, with the provider calling back after \<^verbatim>\<open>render\<close>.\<close>

theorem lifecycle_events_witness:
  "render False plainInput None = Inr (stateOf (render False plainInput None))
   \<and> Emit ''asyncFragmentBegin'' \<in> set (trace (run False plainInput
         [ProviderCallback Null (Str ''data'')] (stateOf (render False plainInput None))))
   \<and> Emit ''asyncFragmentBeforeRender'' \<in> set (trace (run False plainInput
         [ProviderCallback Null (Str ''data'')] (stateOf (render False plainInput None))))
   \<and> Emit ''asyncFragmentFinish'' \<in> set (trace (run False plainInput
         [ProviderCallback Null (Str ''data'')] (stateOf (render False plainInput None))))"
proof -
  have b: "0 < bodyRuns (run False plainInput [ProviderCallback Null (Str ''data'')]
                           (stateOf (render False plainInput None)))"
    by (simp add: pending_plain)
  have c: "\<not> clientReorderOf False plainInput"
    by (simp add: clientReorderOf_def)
  show ?thesis
    using lifecycle_events_emitted [OF render_plain, of "[ProviderCallback Null (Str ''data'')]"]
      b c render_plain
    by simp
qed

text \<open>
  Claim C5 as stated fails with client reordering: the fragment is resolved and its body
  rendered into the buffered writer, and no \<^verbatim>\<open>asyncFragmentFinish\<close> is in the trace.
\<close>

theorem reorder_never_finishes:
  "map_option trace (renderThen True reorderInput None [ProviderCallback Null (Str ''data'')]) =
     Some [AssignArgOut False, ProviderCall [CallbackFn], SetTimeout 10000,
           Write (''<noscript id='' @ [CHR 0x22] @ ''afph0'' @ [CHR 0x22] @ ''></noscript>''),
           CreateWriter, Emit ''asyncFragmentBegin'', ClearTimeout,
           Emit ''asyncFragmentBeforeRender'',
           RenderBodyCall ReorderOut (Str ''data''), WriterEnd ReorderOut]"
  by (simp add: renderThen_def render_def reorderInput_def plainInput_def initialState_def renderBody_trace
      bodyEffects_def contentEffects_def clientReorderOf_def effectiveTimeout_def 
      nameOf_def  digits.simps targetOut_def placeholderEffects_def fragmentId_def contextOf_def)

subsection \<open>C6: the order of the lifecycle events\<close>

text \<open>
  Claim C6, as amended: in every execution in which \<^verbatim>\<open>render\<close> returns, whatever
  events follow, \<^verbatim>\<open>asyncFragmentBegin\<close> is emitted exactly once, every
  \<^verbatim>\<open>asyncFragmentBeforeRender\<close> comes after it, and the body, the error and the timeout
  content are rendered only after \<^verbatim>\<open>asyncFragmentBeforeRender\<close>.
\<close>

theorem begin_once_before_render_before_content:
  assumes "render crs input g = Inr s"
  shows "count_list (trace (run crs input evs s)) (Emit ''asyncFragmentBegin'') = 1
         \<and> lifecycle False False (trace (run crs input evs s))"
  using lifecycleInv_run [OF lifecycleInv_render [OF assms], of evs]
  by (simp add: lifecycleInv_def)

text \<open>The theorem at \<open>plainInput\<close>, with the timer firing after \<^verbatim>\<open>render\<close>.\<close>

theorem begin_once_witness:
  "render False plainInput None = Inr (stateOf (render False plainInput None))
   \<and> count_list (trace (run False plainInput [TimerFires] (stateOf (render False plainInput None))))
        (Emit ''asyncFragmentBegin'') = 1
   \<and> lifecycle False False (trace (run False plainInput [TimerFires] (stateOf (render False plainInput None))))"
  using begin_once_before_render_before_content [OF render_plain, of "[TimerFires]"] render_plain
  by simp

text \<open>
  Claim C6 as stated fails for a call of \<^verbatim>\<open>render\<close> whose provider throws: the call
  ends before any event is emitted.
\<close>

theorem throw_emits_nothing:
  "count_list (trace (stateOf (render False throwingInput None))) (Emit ''asyncFragmentBegin'') = 0"
  by (simp add: render_def throwingInput_def plainInput_def initialState_def)

subsection \<open>C7: the shapes of the provider\<close>

text \<open>
  Claim C7: \<^verbatim>\<open>requestData\<close> hands a thenable to \<^verbatim>\<open>promiseToCallback\<close>, and the
  fulfilment value \<open>v\<close> reaches the callback as \<open>(Null, v)\<close>, inside \<^verbatim>\<open>then\<close> for a
  thenable that calls back at once and through the handler for a pending one; a function
  is called with the callback alone when its arity is 1 and with the arguments and the
  callback otherwise, and a value it returns that is not \<^verbatim>\<open>undefined\<close> is adapted when
  it is a thenable and passed to the callback as \<open>(Null, v)\<close> otherwise; any other
  provider is passed to the callback as \<open>(Null, provider)\<close>.
\<close>

theorem requestData_dispatches_on_shape:
  "requestData (Thenable c f d st) cb s = Inr (promiseToCallback (Thenable c f d st) (Some cb) s)
   \<and> promiseToCallback (Thenable c f d (Some (Fulfilled v))) (Some cb) s =
       (let s2 = cb Null v (perform PromiseThen s);
            s3 = (if c then perform PromiseCatch s2 else if f then perform PromiseFail s2 else s2);
            s5 = (if d then perform PromiseDone s3 else s3)
        in s5\<lparr>promisePending := None\<rparr>)
   \<and> promisePending (promiseToCallback (Thenable c f d None) (Some cb) s) = Some (c \<or> f)
   \<and> trace (promiseToCallback (Thenable c f d None) (Some cb) s) =
       trace s @ PromiseThen # (if c then [PromiseCatch] else if f then [PromiseFail] else [])
         @ (if d then [PromiseDone] else [])
   \<and> (promisePending s \<noteq> None \<longrightarrow>
        step crs input (PromiseSettles (Fulfilled v)) s =
          renderBody crs input Null v False (s\<lparr>promisePending := None\<rparr>))
   \<and> requestData (Function n calls (Returns v)) cb s =
       (let s1 = deliver cb calls
                   ((perform (ProviderCall (if n = 1 then [CallbackFn]
                                            else [ArgsObject, CallbackFn])) s)
                      \<lparr>callbackHeld := True\<rparr>)
        in if v = Undefined then Inr s1
           else if isPromise v then Inr (promiseToCallback v (Some cb) s1)
           else Inr (cb Null v s1))
   \<and> (\<not> isPromise p \<and> \<not> isFunction p \<longrightarrow> requestData p cb s = Inr (cb Null p s))"
proof -
  have last: "\<not> isPromise p \<and> \<not> isFunction p \<longrightarrow> requestData p cb s = Inr (cb Null p s)"
    by (cases p) simp_all
  have ev: "promisePending s \<noteq> None \<longrightarrow>
        step crs input (PromiseSettles (Fulfilled v)) s =
          renderBody crs input Null v False (s\<lparr>promisePending := None\<rparr>)"
    by (auto split: option.split)
  show ?thesis using last ev by (simp add: Let_def)
qed

text \<open>The theorem at a plain object and at a pending promise that is fulfilled.\<close>

theorem requestData_dispatch_witness:
  "promisePending ((initialState False plainInput None)\<lparr>promisePending := Some True\<rparr>) \<noteq> None
   \<and> \<not> isPromise (Object 1) \<and> \<not> isFunction (Object 1)
   \<and> requestData (Object 1) (\<lambda>e d. renderBody False plainInput e d False)
        ((initialState False plainInput None)\<lparr>promisePending := Some True\<rparr>)
       = Inr (renderBody False plainInput Null (Object 1) False
               ((initialState False plainInput None)\<lparr>promisePending := Some True\<rparr>))
   \<and> step False plainInput (PromiseSettles (Fulfilled (Str ''data'')))
        ((initialState False plainInput None)\<lparr>promisePending := Some True\<rparr>)
       = renderBody False plainInput Null (Str ''data'') False
           ((initialState False plainInput None)\<lparr>promisePending := None\<rparr>)"
  using requestData_dispatches_on_shape
    [where p = "Object 1" and cb = "\<lambda>e d. renderBody False plainInput e d False"
       and s = "(initialState False plainInput None)\<lparr>promisePending := Some True\<rparr>"
       and v = "Str ''data''" and crs = False and input = plainInput
       and c = True and f = False and d = False and st = None and n = 1 and calls = "[]"]
  by simp

subsection \<open>C8: arming and clearing the timer\<close>

text \<open>
  Claim C8: when \<^verbatim>\<open>render\<close> returns and the provider has not completed, the one timer
  armed is of 10000 ms when \<^verbatim>\<open>input.timeout\<close> is absent and of \<^verbatim>\<open>input.timeout\<close> ms
  when that is positive, and none is armed when it is zero or negative; whatever events
  follow, a run of \<^verbatim>\<open>renderBody\<close> leaves no timer armed, and when one is armed clearing
  it is the first thing the run does.
\<close>

theorem timeout_armed_and_cleared:
  assumes "render crs input g = Inr s" and "\<not> done_flag s"
  shows "filter isSetTimeout (trace s) =
           (case input_timeout input of
              None \<Rightarrow> [SetTimeout 10000]
            | Some t \<Rightarrow> if t \<le> 0 then [] else [SetTimeout t])
         \<and> timerPending s = (case input_timeout input of None \<Rightarrow> True | Some t \<Rightarrow> 0 < t)
         \<and> \<not> timerPending (renderBody crs input err data rt (run crs input evs s))
         \<and> (timerPending (run crs input evs s) \<longrightarrow>
              take (Suc (length (trace (run crs input evs s))))
                (trace (renderBody crs input err data rt (run crs input evs s)))
              = trace (run crs input evs s) @ [ClearTimeout])"
proof -
  obtain s1 where s: "s = emitBegin (if clientReorderOf crs input
                    then clientReorderBranch input (armTimeout input s1)
                    else beginAsyncBranch input (armTimeout input s1))"
    and s1: "\<not> timeoutId s1" "\<not> timerPending s1" "list_all setupEffect (trace s1)"
    using render_pending [OF assms] by metis
  have a: "filter isSetTimeout (trace s) =
           (case input_timeout input of
              None \<Rightarrow> [SetTimeout 10000]
            | Some t \<Rightarrow> if t \<le> 0 then [] else [SetTimeout t])"
    using s1 by (simp add: s filter_setupEffect placeholderEffects_def effectiveTimeout_def
        split: option.split)
  have b: "timerPending s = (case input_timeout input of None \<Rightarrow> True | Some t \<Rightarrow> 0 < t)"
    using s1 by (simp add: s effectiveTimeout_def split: option.split)
  have "timerPending s \<longrightarrow> timeoutId s"
    using s1 by (simp add: s)
  then have c: "timerPending (run crs input evs s) \<longrightarrow> timeoutId (run crs input evs s)"
    by (rule timer_handle_run)
  have d: "\<not> timerPending (renderBody crs input err data rt (run crs input evs s))"
    using c by simp
  have e: "timerPending (run crs input evs s) \<longrightarrow>
              take (Suc (length (trace (run crs input evs s))))
                (trace (renderBody crs input err data rt (run crs input evs s)))
              = trace (run crs input evs s) @ [ClearTimeout]"
    using c by (simp add: renderBody_trace bodyEffects_def)
  show ?thesis using a b d e by blast
qed

text \<open>The theorem at \<open>plainInput\<close>.\<close>

theorem timeout_armed_witness:
  "render False plainInput None = Inr (stateOf (render False plainInput None))
   \<and> \<not> done_flag (stateOf (render False plainInput None))
   \<and> filter isSetTimeout (trace (stateOf (render False plainInput None))) = [SetTimeout 10000]
   \<and> timerPending (run False plainInput [] (stateOf (render False plainInput None)))
   \<and> \<not> timerPending (renderBody False plainInput Null (Str ''data'') False
          (run False plainInput [] (stateOf (render False plainInput None))))
   \<and> take (Suc (length (trace (run False plainInput [] (stateOf (render False plainInput None))))))
        (trace (renderBody False plainInput Null (Str ''data'') False
                  (run False plainInput [] (stateOf (render False plainInput None)))))
       = trace (run False plainInput [] (stateOf (render False plainInput None))) @ [ClearTimeout]"
proof -
  have i: "input_timeout plainInput = None" by (simp add: plainInput_def)
  show ?thesis
    using timeout_armed_and_cleared [OF render_plain pending_plain(1),
        where evs = "[]" and err = Null and data = "Str ''data''" and rt = False]
      render_plain pending_plain
    by (simp add: i)
qed

subsection \<open>C9: the placeholder\<close>

text \<open>
  Claim C9: in client-reorder mode, when the provider has not completed as \<^verbatim>\<open>render\<close>
  returns, what \<^verbatim>\<open>render\<close> writes to \<^verbatim>\<open>out\<close> is the placeholder with the id
  \<^verbatim>\<open>afph\<close> followed by \<^verbatim>\<open>input.name\<close> when that is a non-empty string and by the
  counter \<^verbatim>\<open>nextId\<close> of the shared context otherwise (0 when there is no context yet):
  a \<^verbatim>\<open>span\<close> around the output of \<^verbatim>\<open>input.renderPlaceholder\<close> when supplied, an
  empty \<^verbatim>\<open>noscript\<close> otherwise.
\<close>

theorem placeholder_written_in_client_reorder:
  assumes "render crs input g = Inr s" and "\<not> done_flag s" and "clientReorderOf crs input"
  shows \<open>filter isPlaceholderOutput (trace s) =
           (if input_renderPlaceholder input then
              [Write (''<span id="afph''
                        @ (if truthyStr (input_name input) then strOf (input_name input)
                           else digits (case g of None \<Rightarrow> 0 | Some c \<Rightarrow> nextId c))
                        @ ''">''),
               RenderPlaceholderCall,
               Write ''</span>'']
            else
              [Write (''<noscript id="afph''
                        @ (if truthyStr (input_name input) then strOf (input_name input)
                           else digits (case g of None \<Rightarrow> 0 | Some c \<Rightarrow> nextId c))
                        @ ''"></noscript>'')])\<close>
proof -
  obtain s1 where s: "s = emitBegin (if clientReorderOf crs input
                    then clientReorderBranch input (armTimeout input s1)
                    else beginAsyncBranch input (armTimeout input s1))"
    and s1: "list_all setupEffect (trace s1)" "global s1 = g"
    using render_pending [OF assms(1,2)] by metis
  have fid: "idStr (fst (fragmentId input (contextOf g))) =
      (if truthyStr (input_name input) then strOf (input_name input)
       else digits (case g of None \<Rightarrow> 0 | Some c \<Rightarrow> nextId c))"
    by (cases "input_name input"; cases g) (simp_all add: fragmentId_def contextOf_def)
  show ?thesis
    using s1 assms(3)
    by (simp add: s filter_setupEffect placeholderEffects_def fid split: option.split)
qed

text \<open>The theorem at \<open>reorderInput\<close>, on an output with no context yet.\<close>

theorem placeholder_witness:
  \<open>render True reorderInput None = Inr (stateOf (render True reorderInput None))
   \<and> \<not> done_flag (stateOf (render True reorderInput None))
   \<and> clientReorderOf True reorderInput
   \<and> filter isPlaceholderOutput (trace (stateOf (render True reorderInput None)))
       = [Write ''<noscript id="afph0"></noscript>'']\<close>
proof -
  have i: "\<not> input_renderPlaceholder reorderInput" "input_name reorderInput = None"
    "digits 0 = ''0''"
    by (simp_all add: reorderInput_def plainInput_def digits.simps)
  have c: "clientReorderOf True reorderInput"
    by (simp add: clientReorderOf_def reorderInput_def)
  show ?thesis
    using placeholder_written_in_client_reorder [OF render_reorder pending_reorder c]
      render_reorder pending_reorder c
    by (simp add: i)
qed

subsection \<open>C10: a promise with neither \<^verbatim>\<open>catch\<close> nor \<^verbatim>\<open>fail\<close>\<close>

text \<open>
  Claim C10: when the provider is a thenable with neither \<^verbatim>\<open>catch\<close> nor \<^verbatim>\<open>fail\<close>,
  its rejection never runs \<^verbatim>\<open>renderBody\<close>: while the timer has not fired no content is
  rendered, whatever other events follow the rejection; the timer, when one is armed, is
  what completes the fragment; and a thenable of that shape that has already been
  rejected does not call the callback inside \<^verbatim>\<open>promiseToCallback\<close> either.
\<close>

theorem rejection_without_catch_or_fail:
  assumes "input_dataProvider input = Thenable False False d None" and "TimerFires \<notin> set evs"
  shows "map_option bodyRuns (renderThen crs input g (PromiseSettles (Rejected e) # evs)) = Some 0
         \<and> map_option (\<lambda>s. filter isContent (trace s))
              (renderThen crs input g (PromiseSettles (Rejected e) # evs)) = Some []
         \<and> map_option bodyRuns
              (renderThen crs input g (PromiseSettles (Rejected e) # evs @ [TimerFires]))
             = Some (if effectiveTimeout input = None then 0 else 1)
         \<and> promiseToCallback (Thenable False False d (Some (Rejected e))) (Some cb) s0 =
             (if d then perform PromiseDone (perform PromiseThen s0) else perform PromiseThen s0)
               \<lparr>promisePending := None\<rparr>"
proof -
  obtain s where r: "render crs input g = Inr s" and s: "bodyRuns s = 0" "\<not> callbackHeld s"
    "promisePending s = Some False" "filter isContent (trace s) = []"
    "timerPending s = (effectiveTimeout input \<noteq> None)"
    using render_then_only [OF assms(1)] by metis
  let ?s' = "s\<lparr>promisePending := None\<rparr>"
  have idle: "run crs input evs ?s' = ?s'"
    by (rule run_idle) (simp_all add: s assms(2))
  have 1: "run crs input (PromiseSettles (Rejected e) # evs) s = ?s'"
    using idle by (simp add: s)
  have 2: "run crs input (PromiseSettles (Rejected e) # evs @ [TimerFires]) s
           = step crs input TimerFires ?s'"
    using idle by (simp add: s run_append)
  have 3: "bodyRuns (step crs input TimerFires ?s') = (if effectiveTimeout input = None then 0 else 1)"
    by (simp add: s)
  show ?thesis
    unfolding renderThen_def r using s 3 by (simp only: sum.case option.map 1 2) (simp add: Let_def)
qed

text \<open>The theorem at \<open>thenOnlyInput\<close>, whose timeout is the default.\<close>

theorem rejection_witness:
  "input_dataProvider thenOnlyInput = Thenable False False False None
   \<and> TimerFires \<notin> set [PromiseSettles (Fulfilled Null)]
   \<and> map_option bodyRuns (renderThen False thenOnlyInput None
        [PromiseSettles (Rejected (ErrorObj ''rejected'')), PromiseSettles (Fulfilled Null)]) = Some 0
   \<and> map_option bodyRuns (renderThen False thenOnlyInput None
        [PromiseSettles (Rejected (ErrorObj ''rejected'')), PromiseSettles (Fulfilled Null), TimerFires])
       = Some 1"
proof -
  have i: "input_dataProvider thenOnlyInput = Thenable False False False None"
    "effectiveTimeout thenOnlyInput = Some 10000"
    by (simp_all add: thenOnlyInput_def plainInput_def effectiveTimeout_def)
  have j: "TimerFires \<notin> set [PromiseSettles (Fulfilled Null)]" by simp
  show ?thesis
    using rejection_without_catch_or_fail [OF i(1) j, where crs = False and g = None
        and e = "ErrorObj ''rejected''"] i
    by simp
qed

end
